theory Spec2Isabelle
  imports Main
begin

section \<open>JavaScript values, objects and errors\<close>

text \<open>
  The values that flow through \<^verbatim>\<open>config/auth.js\<close> and \<^verbatim>\<open>models/user.js\<close>:
  request fields, token claims and serialised documents. Numbers are the integral ones
  (timestamps in seconds, status codes).
\<close>

datatype jsval = JUndefined | JNull | JBool bool | JNum int | JStr string

text \<open>JavaScript truthiness, as used by \<^verbatim>\<open>!x\<close> and \<^verbatim>\<open>a || b\<close>.\<close>

fun truthy :: "jsval \<Rightarrow> bool" where
  "truthy JUndefined = False"
| "truthy JNull = False"
| "truthy (JBool b) = b"
| "truthy (JNum n) = (n \<noteq> 0)"
| "truthy (JStr s) = (s \<noteq> [])"

text \<open>A plain object is a list of properties in insertion order.\<close>

type_synonym jsobject = "(string \<times> jsval) list"

definition get_prop :: "jsobject \<Rightarrow> string \<Rightarrow> jsval" where
  \<comment> \<open>\<^verbatim>\<open>obj.k\<close>: a missing property reads as \<^verbatim>\<open>undefined\<close>.\<close>
  "get_prop obj k = (case map_of obj k of None \<Rightarrow> JUndefined | Some v \<Rightarrow> v)"

definition delete_prop :: "string \<Rightarrow> jsobject \<Rightarrow> jsobject" where
  \<comment> \<open>\<^verbatim>\<open>delete obj.k\<close>\<close>
  "delete_prop k obj = filter (\<lambda>kv. fst kv \<noteq> k) obj"

text \<open>
  An \<^verbatim>\<open>Error\<close> object: its constructor name, its message and the \<^verbatim>\<open>statusCode\<close>
  property, which only \<^verbatim>\<open>createUserToken\<close> sets.
\<close>

record js_error =
  err_name :: string
  message :: string
  statusCode :: "int option"

section \<open>ObjectIds\<close>

text \<open>
  A MongoDB ObjectId is twelve bytes, written as 24 hexadecimal characters.
  \<open>toHexString\<close> gives that string, in lower case; \<open>ObjectId\<close> builds the id from
  it. A string found in a query is cast: 24 hexadecimal characters of either case denote
  an id, any other string does not.
\<close>

definition is_hex_lower :: "char \<Rightarrow> bool" where
  "is_hex_lower c = (c \<in> set ''0123456789abcdef'')"

definition is_hex :: "char \<Rightarrow> bool" where
  "is_hex c = (c \<in> set ''0123456789abcdefABCDEF'')"

definition lower_hex :: "char \<Rightarrow> char" where
  "lower_hex c =
     (if c = CHR ''A'' then CHR ''a''
      else if c = CHR ''B'' then CHR ''b''
      else if c = CHR ''C'' then CHR ''c''
      else if c = CHR ''D'' then CHR ''d''
      else if c = CHR ''E'' then CHR ''e''
      else if c = CHR ''F'' then CHR ''f''
      else c)"

typedef objectid = "{h :: string. length h = 24 \<and> list_all is_hex_lower h}"
  morphisms toHexString ObjectId
  by (rule exI [of _ "''000000000000000000000000''"]) (simp add: is_hex_lower_def)

definition castObjectId :: "string \<Rightarrow> objectid option" where
  "castObjectId h =
     (if length h = 24 \<and> list_all is_hex h then Some (ObjectId (map lower_hex h)) else None)"

section \<open>The user model (\<^verbatim>\<open>models/user.js\<close>)\<close>

text \<open>
  A document of the \<^verbatim>\<open>User\<close> collection: \<^verbatim>\<open>_id\<close> (written \<open>user_id\<close>, an
  ObjectId), the schema fields \<^verbatim>\<open>email\<close>, \<^verbatim>\<open>password\<close> (the hash) and
  the optional \<^verbatim>\<open>token\<close>, and the two timestamps that \<^verbatim>\<open>timestamps: true\<close> adds.
\<close>

record user =
  user_id :: objectid
  user_email :: string
  user_password :: string
  user_token :: "string option"
  createdAt :: int
  updatedAt :: int

definition user_toObject :: "user \<Rightarrow> jsobject" where
  \<comment> \<open>Mongoose's conversion of the document to the plain object handed to \<^verbatim>\<open>transform\<close>.\<close>
  "user_toObject u =
     [(''_id'', JStr (toHexString (user_id u))),
      (''email'', JStr (user_email u)),
      (''password'', JStr (user_password u))]
     @ (case user_token u of None \<Rightarrow> [] | Some t \<Rightarrow> [(''token'', JStr t)])
     @ [(''createdAt'', JNum (createdAt u)),
        (''updatedAt'', JNum (updatedAt u)),
        (''__v'', JNum 0)]"

definition transform :: "user \<Rightarrow> jsobject \<Rightarrow> jsobject" where
  \<comment> \<open>\<^verbatim>\<open>transform: (_doc, user) => { delete user.password; return user }\<close>\<close>
  "transform doc ret = delete_prop ''password'' ret"

definition toJSON :: "user \<Rightarrow> jsobject" where
  \<comment> \<open>The schema option \<^verbatim>\<open>toJSON: { transform }\<close>: convert, then apply the transform.\<close>
  "toJSON u = transform u (user_toObject u)"

text \<open>The collection itself. Nothing in \<^verbatim>\<open>config/auth.js\<close> holds any other state.\<close>

record db =
  users :: "user list"

datatype 'a promise = Resolved 'a | Rejected js_error

definition cast_error :: js_error where
  "cast_error = \<lparr>err_name = ''CastError'',
                 message = ''Cast to ObjectId failed'',
                 statusCode = None\<rparr>"

definition User_findById :: "jsval \<Rightarrow> db \<Rightarrow> user option promise \<times> db" where
  \<comment> \<open>Mongoose's \<^verbatim>\<open>Model.findById\<close>, the store's lookup by id of the specification
      (\<^verbatim>\<open>findById(id) -> User|absent\<close>). \<^verbatim>\<open>undefined\<close> and \<^verbatim>\<open>null\<close> find nothing. A string is
      cast to an ObjectId: when it is one, the promise resolves to the document with that
      \<^verbatim>\<open>_id\<close> or to \<^verbatim>\<open>null\<close>; when it is not, the promise rejects with a CastError, as it
      does for a number or a boolean. The collection is only read.\<close>
  "User_findById v s =
     (case v of
        JUndefined \<Rightarrow> (Resolved None, s)
      | JNull \<Rightarrow> (Resolved None, s)
      | JStr h \<Rightarrow>
          (case castObjectId h of
             None \<Rightarrow> (Rejected cast_error, s)
           | Some i \<Rightarrow> (Resolved (find (\<lambda>u. user_id u = i) (users s)), s))
      | _ \<Rightarrow> (Rejected cast_error, s))"

section \<open>Signed tokens (\<^verbatim>\<open>jsonwebtoken\<close>)\<close>

text \<open>
  A token is modelled symbolically, as protocol messages usually are: its claims, and the
  key its HMAC signature was computed with. Verifying under a key succeeds exactly when
  that key is the one the token was signed with; a forged or altered token is one whose
  \<open>signing_key\<close> differs from the verifier's.
\<close>

record token =
  claims :: jsobject
  signing_key :: string

definition jwt_sign :: "jsobject \<Rightarrow> string \<Rightarrow> int \<Rightarrow> int \<Rightarrow> js_error + token" where
  \<comment> \<open>\<^verbatim>\<open>jwt.sign(payload, key, { expiresIn })\<close> at clock \<open>now\<close> (seconds): the library
      refuses an empty key, stamps \<^verbatim>\<open>iat\<close> and sets \<^verbatim>\<open>exp = iat + expiresIn\<close>.\<close>
  "jwt_sign payload key expiresIn now =
     (if key = [] then
        Inl \<lparr>err_name = ''Error'',
             message = ''secretOrPrivateKey must have a value'',
             statusCode = None\<rparr>
      else
        Inr \<lparr>claims = payload @ [(''iat'', JNum now), (''exp'', JNum (now + expiresIn))],
             signing_key = key\<rparr>)"

definition jwt_verify :: "token \<Rightarrow> string \<Rightarrow> int \<Rightarrow> js_error + jsobject" where
  \<comment> \<open>\<^verbatim>\<open>jwt.verify(token, key)\<close> at clock \<open>now\<close>: signature first, then \<^verbatim>\<open>exp\<close> when the
      claims carry one (\<^verbatim>\<open>now >= exp\<close> is expired).\<close>
  "jwt_verify t key now =
     (if signing_key t \<noteq> key then
        Inl \<lparr>err_name = ''JsonWebTokenError'',
             message = ''invalid signature'',
             statusCode = None\<rparr>
      else
        (case map_of (claims t) ''exp'' of
           None \<Rightarrow> Inr (claims t)
         | Some (JNum e) \<Rightarrow>
             if now \<ge> e then
               Inl \<lparr>err_name = ''TokenExpiredError'',
                    message = ''jwt expired'',
                    statusCode = None\<rparr>
             else Inr (claims t)
         | Some _ \<Rightarrow>
             Inl \<lparr>err_name = ''JsonWebTokenError'',
                  message = ''invalid exp value'',
                  statusCode = None\<rparr>))"

section \<open>The authenticator (\<^verbatim>\<open>config/auth.js\<close>)\<close>

type_synonym process_env = "string \<rightharpoonup> string"

definition default_secret :: string where
  "default_secret = ''some string value only your app knows''"

definition secret :: "process_env \<Rightarrow> string" where
  \<comment> \<open>\<^verbatim>\<open>process.env.JWT_SECRET || 'some string value only your app knows'\<close>: an unset
      variable reads as \<^verbatim>\<open>undefined\<close>, and the empty string is falsy too.\<close>
  "secret env =
     (case env ''JWT_SECRET'' of
        None \<Rightarrow> default_secret
      | Some k \<Rightarrow> if k = [] then default_secret else k)"

text \<open>
  \<^verbatim>\<open>opts\<close>: \<^verbatim>\<open>jwtFromRequest\<close> is the bearer-token extractor, modelled by the
  \<open>authorization\<close> field of a request below; \<^verbatim>\<open>secretOrKey\<close> is the secret.
\<close>

record strategy_opts =
  secretOrKey :: string

definition opts :: "process_env \<Rightarrow> strategy_opts" where
  "opts env = \<lparr>secretOrKey = secret env\<rparr>"

text \<open>
  A request: \<^verbatim>\<open>req.body.credentials.password\<close> is the only body field the module reads;
  \<open>authorization\<close> is the bearer token of the \<^verbatim>\<open>Authorization\<close> header, when there is one.
\<close>

record credentials =
  password :: jsval

record body =
  credentials :: credentials

record request =
  body :: body
  authorization :: "token option"

text \<open>The arguments the strategy's callback passes to \<^verbatim>\<open>done(err, user)\<close>.\<close>

datatype verified = Done "js_error option" "user option"

definition strategy :: "jsobject \<Rightarrow> db \<Rightarrow> verified \<times> db" where
  \<comment> \<open>\<^verbatim>\<open>User.findById(jwt_payload.id).then((user) => done(null, user)).catch((err) => done(err))\<close>\<close>
  "strategy jwt_payload s =
     (case User_findById (get_prop jwt_payload ''id'') s of
        (Resolved found, s') \<Rightarrow> (Done None found, s')
      | (Rejected err, s') \<Rightarrow> (Done (Some err) None, s'))"

text \<open>
  What \<^verbatim>\<open>passport.authenticate('jwt', { session: false })\<close> does with a request, following
  passport-jwt: no token fails; a token that does not verify under \<^verbatim>\<open>secretOrKey\<close> fails
  with the verification error as its info; otherwise the callback runs, and its
  \<^verbatim>\<open>done(err, user)\<close> becomes an error when \<^verbatim>\<open>err\<close> is set, a failure without info when
  \<^verbatim>\<open>user\<close> is falsy, and success with the user otherwise.
\<close>

datatype outcome = Success user | Fail "js_error option" | Error js_error

definition no_auth_token :: js_error where
  "no_auth_token = \<lparr>err_name = ''Error'', message = ''No auth token'', statusCode = None\<rparr>"

definition requireToken :: "process_env \<Rightarrow> int \<Rightarrow> request \<Rightarrow> db \<Rightarrow> outcome \<times> db" where
  "requireToken env now req s =
     (case authorization req of
        None \<Rightarrow> (Fail (Some no_auth_token), s)
      | Some t \<Rightarrow>
          (case jwt_verify t (secretOrKey (opts env)) now of
             Inl jwt_err \<Rightarrow> (Fail (Some jwt_err), s)
           | Inr jwt_payload \<Rightarrow>
               (case strategy jwt_payload s of
                  (Done (Some err) _, s') \<Rightarrow> (Error err, s')
                | (Done None None, s') \<Rightarrow> (Fail None, s')
                | (Done None (Some u), s') \<Rightarrow> (Success u, s'))))"

definition invalid_credentials :: js_error where
  \<comment> \<open>\<^verbatim>\<open>new Error('The provided username or password is incorrect')\<close> with
      \<^verbatim>\<open>err.statusCode = 422\<close>\<close>
  "invalid_credentials =
     \<lparr>err_name = ''Error'',
      message = ''The provided username or password is incorrect'',
      statusCode = Some 422\<rparr>"

text \<open>
  \<^verbatim>\<open>createUserToken(req, user)\<close>. The parameters the JavaScript takes from its
  surroundings are explicit: \<open>compareSync\<close> is \<^verbatim>\<open>bcrypt.compareSync\<close> (which may itself
  throw), \<open>env\<close> the process environment the secret was read from, \<open>now\<close> the clock in
  seconds. \<open>user\<close> is \<open>None\<close> for \<^verbatim>\<open>null\<close>. The three disjuncts of the guard are tested
  left to right, as \<^verbatim>\<open>||\<close> does, and an error thrown by the comparison leaves the function
  as it is. The payload \<^verbatim>\<open>{ id: user._id }\<close> is serialised into the token, which writes
  the ObjectId as its hexadecimal string. The collection is passed through so that the
  function's effect on it can be stated.
\<close>

definition createUserToken ::
  "(jsval \<Rightarrow> string \<Rightarrow> js_error + bool) \<Rightarrow> process_env \<Rightarrow> int \<Rightarrow> request \<Rightarrow> user option \<Rightarrow> db
     \<Rightarrow> (js_error + token) \<times> db" where
  "createUserToken compareSync env now req usr s =
     (case usr of
        None \<Rightarrow> (Inl invalid_credentials, s)
      | Some u \<Rightarrow>
          if \<not> truthy (password (credentials (body req))) then (Inl invalid_credentials, s)
          else
            (case compareSync (password (credentials (body req))) (user_password u) of
               Inl thrown \<Rightarrow> (Inl thrown, s)
             | Inr matches \<Rightarrow>
                 if \<not> matches then (Inl invalid_credentials, s)
                 else (jwt_sign [(''id'', JStr (toHexString (user_id u)))] (secret env) 36000 now,
                       s)))"

text \<open>
  A symbolic stand-in for bcrypt, for concrete instances: the hash of a password is the
  password behind a version prefix, and comparison recomputes it. The argument checks are
  the library's: \<^verbatim>\<open>compareSync\<close> throws when the data is \<^verbatim>\<open>null\<close> or \<^verbatim>\<open>undefined\<close>, and when
  it is not a string. The general results below hold for every comparison function.
\<close>

definition bcrypt_hashSync :: "string \<Rightarrow> string" where
  "bcrypt_hashSync pw = ''$2b$10$'' @ pw"

definition bcrypt_arguments_required :: js_error where
  "bcrypt_arguments_required =
     \<lparr>err_name = ''Error'',
      message = ''data and hash arguments required'',
      statusCode = None\<rparr>"

definition bcrypt_not_a_string :: js_error where
  "bcrypt_not_a_string =
     \<lparr>err_name = ''Error'',
      message = ''data must be a string or Buffer and hash must be a string'',
      statusCode = None\<rparr>"

definition bcrypt_compareSync :: "jsval \<Rightarrow> string \<Rightarrow> js_error + bool" where
  "bcrypt_compareSync data encrypted =
     (case data of
        JUndefined \<Rightarrow> Inl bcrypt_arguments_required
      | JNull \<Rightarrow> Inl bcrypt_arguments_required
      | JStr pw \<Rightarrow> Inr (encrypted = bcrypt_hashSync pw)
      | _ \<Rightarrow> Inl bcrypt_not_a_string)"

section \<open>Concrete instances\<close>

text \<open>
  The scenario of the specification: a user \<^verbatim>\<open>a@x.com\<close> whose stored hash is that of
  \<^verbatim>\<open>secret1\<close>, a second user whose stored hash is that of the empty password, login
  requests, the token issued to the first user at second 1000 in an environment that
  sets no secret, and a token signed with the same secret whose \<^verbatim>\<open>id\<close> is no ObjectId.
\<close>

definition alice :: user where
  "alice = \<lparr>user_id = ObjectId ''64b5f0c2a1d3e4f5a6b7c8d9'',
            user_email = ''a@x.com'',
            user_password = bcrypt_hashSync ''secret1'',
            user_token = None,
            createdAt = 0,
            updatedAt = 0\<rparr>"

definition blank :: user where
  "blank = \<lparr>user_id = ObjectId ''64b5f0c2a1d3e4f5a6b7c8da'',
            user_email = ''b@x.com'',
            user_password = bcrypt_hashSync [],
            user_token = None,
            createdAt = 0,
            updatedAt = 0\<rparr>"

definition store :: db where
  "store = \<lparr>users = [alice, blank]\<rparr>"


definition login_request :: "jsval \<Rightarrow> request" where
  "login_request pw = \<lparr>body = \<lparr>credentials = \<lparr>password = pw\<rparr>\<rparr>, authorization = None\<rparr>"

definition bearer_request :: "token \<Rightarrow> request" where
  "bearer_request t =
     \<lparr>body = \<lparr>credentials = \<lparr>password = JUndefined\<rparr>\<rparr>, authorization = Some t\<rparr>"

definition alice_token :: token where
  "alice_token =
     \<lparr>claims = [(''id'', JStr ''64b5f0c2a1d3e4f5a6b7c8d9''),
                (''iat'', JNum 1000),
                (''exp'', JNum 37000)],
      signing_key = ''some string value only your app knows''\<rparr>"

definition stray_token :: token where
  "stray_token =
     \<lparr>claims = [(''id'', JStr ''nouser''),
                (''iat'', JNum 1000),
                (''exp'', JNum 37000)],
      signing_key = ''some string value only your app knows''\<rparr>"

definition env_with_secret :: process_env where
  "env_with_secret = [''JWT_SECRET'' \<mapsto> ''hunter2'']"

section \<open>Basic facts\<close>

lemma secret_nonempty: "secret env \<noteq> []"
  by (simp add: secret_def default_secret_def split: option.split)

lemma map_of_delete_prop: "map_of (delete_prop k obj) = (map_of obj)(k := None)"
  by (induction obj) (auto simp: delete_prop_def fun_eq_iff)

lemma keys_delete_prop: "fst ` set (delete_prop k obj) = fst ` set obj - {k}"
  by (auto simp: delete_prop_def)

lemma is_hex_lower_is_hex: "is_hex_lower c \<Longrightarrow> is_hex c"
  by (auto simp: is_hex_lower_def is_hex_def)

lemma lower_hex_fixes_lower: "is_hex_lower c \<Longrightarrow> lower_hex c = c"
  by (auto simp: is_hex_lower_def lower_hex_def)

lemma castObjectId_toHexString: "castObjectId (toHexString i) = Some i"
proof -
  from toHexString [of i] have len: "length (toHexString i) = 24"
    and low: "list_all is_hex_lower (toHexString i)"
    by simp_all
  from low have hex: "list_all is_hex (toHexString i)"
    by (simp add: list_all_iff is_hex_lower_is_hex)
  from low have "map lower_hex (toHexString i) = toHexString i"
    by (simp add: list_all_iff map_idI lower_hex_fixes_lower)
  with len hex show ?thesis
    by (simp add: castObjectId_def toHexString_inverse)
qed

lemma alice_hex: "toHexString (user_id alice) = ''64b5f0c2a1d3e4f5a6b7c8d9''"
  by (simp add: alice_def ObjectId_inverse is_hex_lower_def)

lemma blank_hex: "toHexString (user_id blank) = ''64b5f0c2a1d3e4f5a6b7c8da''"
  by (simp add: blank_def ObjectId_inverse is_hex_lower_def)

lemma alice_not_blank: "user_id alice \<noteq> user_id blank"
proof
  assume "user_id alice = user_id blank"
  then have "toHexString (user_id alice) = toHexString (user_id blank)"
    by simp
  then show False
    by (simp add: alice_hex blank_hex)
qed

lemma createUserToken_store: "snd (createUserToken compareSync env now req usr s) = s"
  by (simp add: createUserToken_def split: option.split sum.split)

lemma createUserToken_absent:
  "createUserToken compareSync env now req None s = (Inl invalid_credentials, s)"
  by (simp add: createUserToken_def)

lemma createUserToken_falsy:
  "\<not> truthy (password (credentials (body req))) \<Longrightarrow>
   createUserToken compareSync env now req usr s = (Inl invalid_credentials, s)"
  by (simp add: createUserToken_def split: option.split)

lemma createUserToken_match:
  "truthy (password (credentials (body req))) \<Longrightarrow>
   compareSync (password (credentials (body req))) (user_password u) = Inr True \<Longrightarrow>
   createUserToken compareSync env now req (Some u) s =
     (Inr \<lparr>claims = [(''id'', JStr (toHexString (user_id u))), (''iat'', JNum now),
                      (''exp'', JNum (now + 36000))],
           signing_key = secret env\<rparr>, s)"
  by (simp add: createUserToken_def jwt_sign_def secret_nonempty)

lemma createUserToken_issued:
  assumes "fst (createUserToken compareSync env now req usr s) = Inr t"
  shows "\<exists>u. usr = Some u
           \<and> truthy (password (credentials (body req)))
           \<and> compareSync (password (credentials (body req))) (user_password u) = Inr True
           \<and> t = \<lparr>claims = [(''id'', JStr (toHexString (user_id u))), (''iat'', JNum now),
                             (''exp'', JNum (now + 36000))],
                   signing_key = secret env\<rparr>"
proof (cases usr)
  case None
  with assms show ?thesis by (simp add: createUserToken_def)
next
  case (Some u)
  show ?thesis
  proof (cases "truthy (password (credentials (body req)))")
    case False
    with assms Some show ?thesis by (simp add: createUserToken_def)
  next
    case True
    show ?thesis
    proof (cases "compareSync (password (credentials (body req))) (user_password u)")
      case (Inl e)
      with assms Some True show ?thesis by (simp add: createUserToken_def)
    next
      case (Inr m)
      with assms Some True show ?thesis
        by (cases m) (auto simp: createUserToken_def jwt_sign_def secret_nonempty)
    qed
  qed
qed

lemma alice_issued:
  "createUserToken bcrypt_compareSync Map.empty 1000 (login_request (JStr ''secret1''))
     (Some alice) s = (Inr alice_token, s)"
proof -
  have "bcrypt_compareSync (JStr ''secret1'') (user_password alice) = Inr True"
    by (simp add: bcrypt_compareSync_def alice_def)
  then have "createUserToken bcrypt_compareSync Map.empty 1000 (login_request (JStr ''secret1''))
     (Some alice) s =
     (Inr \<lparr>claims = [(''id'', JStr (toHexString (user_id alice))), (''iat'', JNum 1000),
                      (''exp'', JNum (1000 + 36000))],
           signing_key = secret Map.empty\<rparr>, s)"
    by (intro createUserToken_match) (simp_all add: login_request_def)
  then show ?thesis
    by (simp add: alice_hex alice_token_def secret_def default_secret_def)
qed

lemma find_by_id_some:
  "u \<in> set us \<Longrightarrow> \<exists>u'. find (\<lambda>x. user_id x = user_id u) us = Some u' \<and> user_id u' = user_id u"
  by (induction us) auto

lemma find_by_id_distinct:
  "distinct (map user_id us) \<Longrightarrow> u \<in> set us \<Longrightarrow> find (\<lambda>x. user_id x = user_id u) us = Some u"
  by (induction us) (auto simp: image_iff)


lemma strategy_store: "snd (strategy p s) = s"
  by (simp add: strategy_def User_findById_def split: jsval.split option.split)

lemma requireToken_store: "snd (requireToken env now req s) = s"
  by (simp add: requireToken_def strategy_def User_findById_def
      split: option.split sum.split jsval.split)

lemma strategy_found:
  "find (\<lambda>x. user_id x = i) (users s) = r \<Longrightarrow>
   strategy [(''id'', JStr (toHexString i)), (''iat'', a), (''exp'', b)] s = (Done None r, s)"
  by (simp add: strategy_def User_findById_def get_prop_def castObjectId_toHexString)

lemma jwt_verify_fresh:
  "now' < e \<Longrightarrow>
   jwt_verify \<lparr>claims = [(''id'', v), (''iat'', a), (''exp'', JNum e)], signing_key = k\<rparr> k now'
     = Inr [(''id'', v), (''iat'', a), (''exp'', JNum e)]"
  by (simp add: jwt_verify_def)

lemma createUserToken_rejected:
  "compareSync (password (credentials (body req))) (user_password u) = Inr False \<Longrightarrow>
   createUserToken compareSync env now req (Some u) s = (Inl invalid_credentials, s)"
  by (simp add: createUserToken_def)

lemma createUserToken_thrown:
  "truthy (password (credentials (body req))) \<Longrightarrow>
   compareSync (password (credentials (body req))) (user_password u) = Inl thrown \<Longrightarrow>
   createUserToken compareSync env now req (Some u) s = (Inl thrown, s)"
  by (simp add: createUserToken_def)

lemma requireToken_stray_token:
  "requireToken Map.empty 2000 (bearer_request stray_token) s = (Error cast_error, s)"
  by (simp add: requireToken_def bearer_request_def stray_token_def jwt_verify_def opts_def
      secret_def default_secret_def strategy_def get_prop_def User_findById_def castObjectId_def)

section \<open>Issuing and verifying tokens\<close>

text \<open>
  C1, as stated for every password, fails at the empty password: \<^verbatim>\<open>blank\<close> is stored
  with the hash of the empty string and the comparison would accept it, yet the guard
  \<^verbatim>\<open>!req.body.credentials.password\<close> rejects the request before any comparison.
\<close>

theorem createUserToken_empty_password_counterexample:
  "blank \<in> set (users store)
   \<and> bcrypt_compareSync (JStr []) (user_password blank) = Inr True
   \<and> fst (createUserToken bcrypt_compareSync Map.empty 1000 (login_request (JStr []))
            (Some blank) store) = Inl invalid_credentials"
  by (simp add: store_def blank_def bcrypt_compareSync_def login_request_def
      createUserToken_def)

text \<open>
  C1 (amended). For every stored user and every non-empty password that the comparison
  accepts against the stored hash, \<^verbatim>\<open>createUserToken\<close> succeeds with a token whose \<^verbatim>\<open>id\<close>
  claim is the user's \<^verbatim>\<open>_id\<close>; presenting that token before its expiry resolves to a
  stored user with that \<^verbatim>\<open>_id\<close>, which is the same record when ids are unique.
\<close>

theorem createUserToken_roundtrip:
  assumes stored: "u \<in> set (users s)"
    and nonempty: "P \<noteq> []"
    and presented: "password (credentials (body req)) = JStr P"
    and matches: "compareSync (JStr P) (user_password u) = Inr True"
    and fresh: "now' < now + 36000"
  shows "\<exists>t u'. createUserToken compareSync env now req (Some u) s = (Inr t, s)
           \<and> get_prop (claims t) ''id'' = JStr (toHexString (user_id u))
           \<and> requireToken env now' (req\<lparr>authorization := Some t\<rparr>) s = (Success u', s)
           \<and> user_id u' = user_id u
           \<and> (distinct (map user_id (users s)) \<longrightarrow> u' = u)"
proof -
  let ?c = "[(''id'', JStr (toHexString (user_id u))), (''iat'', JNum now),
             (''exp'', JNum (now + 36000))]"
  let ?t = "\<lparr>claims = ?c, signing_key = secret env\<rparr>"
  from stored obtain u' where
    found: "find (\<lambda>x. user_id x = user_id u) (users s) = Some u'" and same: "user_id u' = user_id u"
    using find_by_id_some by blast
  have issue: "createUserToken compareSync env now req (Some u) s = (Inr ?t, s)"
    using nonempty presented matches by (simp add: createUserToken_match)
  have id: "get_prop (claims ?t) ''id'' = JStr (toHexString (user_id u))"
    by (simp add: get_prop_def)
  have verify: "jwt_verify ?t (secretOrKey (opts env)) now' = Inr ?c"
    using fresh by (simp add: opts_def jwt_verify_fresh)
  have callback: "strategy ?c s = (Done None (Some u'), s)"
    using found by (rule strategy_found)
  have resolve: "requireToken env now' (req\<lparr>authorization := Some ?t\<rparr>) s = (Success u', s)"
    by (simp add: requireToken_def verify callback)
  have "distinct (map user_id (users s)) \<longrightarrow> u' = u"
    using found stored by (auto dest: find_by_id_distinct)
  with issue id resolve same show ?thesis
    by blast
qed

theorem createUserToken_roundtrip_witness:
  "alice \<in> set (users store)
   \<and> bcrypt_compareSync (JStr ''secret1'') (user_password alice) = Inr True
   \<and> distinct (map user_id (users store))
   \<and> createUserToken bcrypt_compareSync Map.empty 1000 (login_request (JStr ''secret1''))
        (Some alice) store = (Inr alice_token, store)
   \<and> requireToken Map.empty 2000 (bearer_request alice_token) store = (Success alice, store)"
proof -
  have stored: "alice \<in> set (users store)"
    by (simp add: store_def)
  have presented: "password (credentials (body (login_request (JStr ''secret1'')))) = JStr ''secret1''"
    by (simp add: login_request_def)
  have matches: "bcrypt_compareSync (JStr ''secret1'') (user_password alice) = Inr True"
    by (simp add: bcrypt_compareSync_def alice_def)
  have ids: "distinct (map user_id (users store))"
    by (simp add: store_def alice_not_blank)
  have issued: "createUserToken bcrypt_compareSync Map.empty 1000 (login_request (JStr ''secret1''))
        (Some alice) store = (Inr alice_token, store)"
    by (rule alice_issued)
  have nonempty: "''secret1'' \<noteq> []" by simp
  have fresh: "(2000::int) < 1000 + 36000" by simp
  from createUserToken_roundtrip
         [where compareSync = bcrypt_compareSync and env = Map.empty,
          OF stored nonempty presented matches fresh]
  obtain t u' where
    "createUserToken bcrypt_compareSync Map.empty 1000 (login_request (JStr ''secret1''))
        (Some alice) store = (Inr t, store)"
    and "requireToken Map.empty 2000 ((login_request (JStr ''secret1''))\<lparr>authorization := Some t\<rparr>) store
         = (Success u', store)"
    and "distinct (map user_id (users store)) \<longrightarrow> u' = alice"
    by auto
  with issued ids have
    "requireToken Map.empty 2000 ((login_request (JStr ''secret1''))\<lparr>authorization := Some alice_token\<rparr>) store
         = (Success alice, store)"
    by simp
  then have "requireToken Map.empty 2000 (bearer_request alice_token) store = (Success alice, store)"
    by (simp add: requireToken_def login_request_def bearer_request_def)
  with stored matches ids issued show ?thesis
    by simp
qed

text \<open>
  C2. An unknown email and a known email with a wrong password should get the same error.
  They do when the comparison answers \<^verbatim>\<open>false\<close>, but not when it throws: for the password
  \<^verbatim>\<open>12345\<close>, a number, an unknown email gets the 422 error, while for \<^verbatim>\<open>alice\<close>
  \<^verbatim>\<open>bcrypt.compareSync\<close> throws its own error, which has another message and no status
  code. The two responses tell the caller whether the email exists, against the comment
  above the guard.
\<close>

theorem createUserToken_error_differs:
  "fst (createUserToken bcrypt_compareSync Map.empty 1000 (login_request (JNum 12345))
          None store) = Inl invalid_credentials
   \<and> fst (createUserToken bcrypt_compareSync Map.empty 1000 (login_request (JNum 12345))
            (Some alice) store) = Inl bcrypt_not_a_string
   \<and> message bcrypt_not_a_string \<noteq> message invalid_credentials
   \<and> statusCode bcrypt_not_a_string \<noteq> statusCode invalid_credentials"
proof -
  have "truthy (password (credentials (body (login_request (JNum 12345)))))"
    by (simp add: login_request_def)
  moreover have "bcrypt_compareSync (password (credentials (body (login_request (JNum 12345)))))
                   (user_password alice) = Inl bcrypt_not_a_string"
    by (simp add: login_request_def bcrypt_compareSync_def)
  ultimately have "createUserToken bcrypt_compareSync Map.empty 1000 (login_request (JNum 12345))
                     (Some alice) store = (Inl bcrypt_not_a_string, store)"
    by (rule createUserToken_thrown)
  then show ?thesis
    by (simp add: createUserToken_absent bcrypt_not_a_string_def invalid_credentials_def)
qed

text \<open>
  C3. The expiry of an issued token is its issuance time plus the fixed lifetime. The
  lifetime the code passes is 36000 seconds, ten hours, where the comment above
  \<^verbatim>\<open>createUserToken\<close> asks for one hour: the token issued to \<^verbatim>\<open>alice\<close> at second 1000
  expires at 37000, not at 4600.
\<close>

theorem createUserToken_expiry_36000:
  "fst (createUserToken bcrypt_compareSync Map.empty 1000 (login_request (JStr ''secret1''))
          (Some alice) store) = Inr alice_token
   \<and> get_prop (claims alice_token) ''iat'' = JNum 1000
   \<and> get_prop (claims alice_token) ''exp'' = JNum (1000 + 36000)
   \<and> get_prop (claims alice_token) ''exp'' \<noteq> JNum (1000 + 3600)"
  by (simp add: alice_issued) (simp add: alice_token_def get_prop_def)




text \<open>
  C5. The claims of every issued token are exactly \<^verbatim>\<open>id\<close> (the user's \<^verbatim>\<open>_id\<close>),
  \<^verbatim>\<open>iat\<close> and \<^verbatim>\<open>exp\<close>; there is no \<^verbatim>\<open>email\<close> and no \<^verbatim>\<open>password\<close> claim.
\<close>

theorem createUserToken_payload_minimal:
  assumes "fst (createUserToken compareSync env now req usr s) = Inr t"
  shows "\<exists>u. usr = Some u
           \<and> claims t = [(''id'', JStr (toHexString (user_id u))), (''iat'', JNum now),
                         (''exp'', JNum (now + 36000))]
           \<and> map fst (claims t) = [''id'', ''iat'', ''exp'']
           \<and> get_prop (claims t) ''email'' = JUndefined
           \<and> get_prop (claims t) ''password'' = JUndefined"
proof -
  from createUserToken_issued [OF assms] obtain u where
    "usr = Some u"
    "t = \<lparr>claims = [(''id'', JStr (toHexString (user_id u))), (''iat'', JNum now),
                    (''exp'', JNum (now + 36000))],
          signing_key = secret env\<rparr>"
    by blast
  then show ?thesis
    by (simp add: get_prop_def)
qed

theorem createUserToken_payload_minimal_witness:
  "fst (createUserToken bcrypt_compareSync Map.empty 1000 (login_request (JStr ''secret1''))
          (Some alice) store) = Inr alice_token
   \<and> map fst (claims alice_token) = [''id'', ''iat'', ''exp'']
   \<and> get_prop (claims alice_token) ''id'' = JStr (toHexString (user_id alice))
   \<and> get_prop (claims alice_token) ''email'' = JUndefined
   \<and> get_prop (claims alice_token) ''password'' = JUndefined"
proof -
  have issued: "fst (createUserToken bcrypt_compareSync Map.empty 1000
          (login_request (JStr ''secret1'')) (Some alice) store) = Inr alice_token"
    by (simp add: alice_issued)
  from createUserToken_payload_minimal [OF issued] issued
  show ?thesis by (auto simp: get_prop_def)
qed

section \<open>The secret\<close>

text \<open>
  C6. The key \<^verbatim>\<open>createUserToken\<close> signs with is the strategy's \<^verbatim>\<open>secretOrKey\<close>, and it
  is never empty: it is \<^verbatim>\<open>JWT_SECRET\<close> when the environment sets it to a non-empty
  value, and the non-empty default otherwise.
\<close>

theorem secret_shared_nonempty:
  "secretOrKey (opts env) = secret env
   \<and> secret env \<noteq> []
   \<and> default_secret \<noteq> []
   \<and> (fst (createUserToken compareSync env now req usr s) = Inr t
        \<longrightarrow> signing_key t = secretOrKey (opts env))
   \<and> (env ''JWT_SECRET'' = Some k \<and> k \<noteq> [] \<longrightarrow> secret env = k)
   \<and> (env ''JWT_SECRET'' = None \<or> env ''JWT_SECRET'' = Some [] \<longrightarrow> secret env = default_secret)"
proof -
  have "signing_key t = secret env"
    if "fst (createUserToken compareSync env now req usr s) = Inr t"
    using createUserToken_issued [OF that] by auto
  moreover have "default_secret \<noteq> []"
    by (simp add: default_secret_def)
  moreover have "secret env = k" if "env ''JWT_SECRET'' = Some k" "k \<noteq> []"
    using that by (simp add: secret_def)
  moreover have "secret env = default_secret"
    if "env ''JWT_SECRET'' = None \<or> env ''JWT_SECRET'' = Some []"
    using that by (auto simp: secret_def)
  ultimately show ?thesis
    by (simp add: opts_def secret_nonempty)
qed

theorem secret_shared_nonempty_witness:
  "env_with_secret ''JWT_SECRET'' = Some ''hunter2''
   \<and> secret env_with_secret = ''hunter2''
   \<and> secretOrKey (opts env_with_secret) = ''hunter2''
   \<and> Map.empty ''JWT_SECRET'' = (None :: string option)
   \<and> secret Map.empty = default_secret
   \<and> fst (createUserToken bcrypt_compareSync Map.empty 1000 (login_request (JStr ''secret1''))
            (Some alice) store) = Inr alice_token
   \<and> signing_key alice_token = secretOrKey (opts Map.empty)"
proof -
  have configured: "env_with_secret ''JWT_SECRET'' = Some ''hunter2''"
    by (simp add: env_with_secret_def)
  have unset: "Map.empty ''JWT_SECRET'' = (None :: string option)"
    by simp
  have issued: "fst (createUserToken bcrypt_compareSync Map.empty 1000
          (login_request (JStr ''secret1'')) (Some alice) store) = Inr alice_token"
    by (simp add: alice_issued)
  from secret_shared_nonempty [where env = env_with_secret and k = "''hunter2''"] configured
  have a: "secret env_with_secret = ''hunter2'' \<and> secretOrKey (opts env_with_secret) = ''hunter2''"
    by simp
  from secret_shared_nonempty
         [where env = Map.empty and compareSync = bcrypt_compareSync and now = 1000
            and req = "login_request (JStr ''secret1'')" and usr = "Some alice" and s = store
            and t = alice_token]
       unset issued
  have b: "secret Map.empty = default_secret \<and> signing_key alice_token = secretOrKey (opts Map.empty)"
    by simp
  from a b configured unset issued show ?thesis
    by simp
qed

section \<open>Credential failures\<close>

text \<open>
  C7. Every credential failure should surface as the one error with status code 422. A
  missing user, a falsy password and a password the comparison rejects do; a truthy
  password that is not a string does not: for \<^verbatim>\<open>alice\<close> and the password \<^verbatim>\<open>12345\<close>, a
  number, \<^verbatim>\<open>bcrypt.compareSync\<close> throws and \<^verbatim>\<open>createUserToken\<close> lets that error through,
  with no status code and a message of its own.
\<close>

theorem createUserToken_failure_without_422:
  "truthy (password (credentials (body (login_request (JNum 12345)))))
   \<and> createUserToken bcrypt_compareSync Map.empty 1000 (login_request (JNum 12345))
        (Some alice) store = (Inl bcrypt_not_a_string, store)
   \<and> statusCode bcrypt_not_a_string = None
   \<and> statusCode invalid_credentials = Some 422
   \<and> message bcrypt_not_a_string
       = ''data must be a string or Buffer and hash must be a string''"
proof -
  have given: "truthy (password (credentials (body (login_request (JNum 12345)))))"
    by (simp add: login_request_def)
  have "bcrypt_compareSync (password (credentials (body (login_request (JNum 12345)))))
          (user_password alice) = Inl bcrypt_not_a_string"
    by (simp add: login_request_def bcrypt_compareSync_def)
  with given have "createUserToken bcrypt_compareSync Map.empty 1000 (login_request (JNum 12345))
                     (Some alice) store = (Inl bcrypt_not_a_string, store)"
    by (rule createUserToken_thrown)
  with given show ?thesis
    by (simp add: bcrypt_not_a_string_def invalid_credentials_def)
qed

section \<open>Serialisation of users\<close>

text \<open>
  C8. Serialising a user never shows the password hash: whatever object the transform is
  given, its result has no \<^verbatim>\<open>password\<close> property and every other property is as before;
  so \<^verbatim>\<open>toJSON\<close> of any user has no \<^verbatim>\<open>password\<close> property.
\<close>

theorem toJSON_omits_password:
  "''password'' \<notin> fst ` set (transform doc ret)
   \<and> map_of (transform doc ret) = (map_of ret)(''password'' := None)
   \<and> ''password'' \<notin> fst ` set (toJSON u)
   \<and> get_prop (toJSON u) ''password'' = JUndefined"
proof -
  have a: "''password'' \<notin> fst ` set (transform d r)" for d r
    by (simp add: transform_def keys_delete_prop)
  have b: "map_of (transform d r) = (map_of r)(''password'' := None)" for d r
    by (simp add: transform_def map_of_delete_prop)
  have "map_of (toJSON u) ''password'' = None"
    by (simp add: toJSON_def b)
  then have "get_prop (toJSON u) ''password'' = JUndefined"
    by (simp add: get_prop_def)
  with a b show ?thesis
    by (simp add: toJSON_def)
qed

section \<open>Effects on the collection\<close>

text \<open>
  C9. \<^verbatim>\<open>createUserToken\<close>, the strategy's callback and \<^verbatim>\<open>requireToken\<close> leave the
  collection as it was, whether they succeed or fail.
\<close>

theorem authenticator_store_unchanged:
  "snd (createUserToken compareSync env now req usr s) = s
   \<and> snd (strategy jwt_payload s) = s
   \<and> snd (requireToken env now req s) = s
   \<and> users (snd (createUserToken compareSync env now req usr s)) = users s
   \<and> users (snd (requireToken env now req s)) = users s"
  by (simp add: createUserToken_store strategy_store requireToken_store)

section \<open>Absent and empty passwords\<close>

text \<open>
  C10. When the presented password is falsy (absent or empty), \<^verbatim>\<open>createUserToken\<close>
  throws the same 422 error whatever the user and whatever the comparison would answer:
  the result does not depend on the comparison function, which the guard never reaches.
\<close>

theorem createUserToken_falsy_password:
  assumes "\<not> truthy (password (credentials (body req)))"
  shows "createUserToken compareSync env now req usr s = (Inl invalid_credentials, s)
         \<and> statusCode invalid_credentials = Some 422
         \<and> message invalid_credentials = ''The provided username or password is incorrect''
         \<and> createUserToken compareSync' env now req usr s
             = createUserToken compareSync env now req usr s"
  using assms by (simp add: createUserToken_falsy invalid_credentials_def)

theorem createUserToken_falsy_password_witness:
  "\<not> truthy (password (credentials (body (login_request (JStr [])))))
   \<and> bcrypt_compareSync (JStr []) (user_password blank) = Inr True
   \<and> createUserToken bcrypt_compareSync Map.empty 1000 (login_request (JStr [])) (Some blank) store
       = (Inl invalid_credentials, store)
   \<and> \<not> truthy (password (credentials (body (login_request JUndefined))))
   \<and> createUserToken bcrypt_compareSync Map.empty 1000 (login_request JUndefined) (Some blank) store
       = (Inl invalid_credentials, store)"
proof -
  have empty: "\<not> truthy (password (credentials (body (login_request (JStr [])))))"
    by (simp add: login_request_def)
  have absent: "\<not> truthy (password (credentials (body (login_request JUndefined))))"
    by (simp add: login_request_def)
  have hash: "bcrypt_compareSync (JStr []) (user_password blank) = Inr True"
    by (simp add: bcrypt_compareSync_def blank_def)
  from createUserToken_falsy_password [OF empty, where compareSync = bcrypt_compareSync]
       createUserToken_falsy_password [OF absent, where compareSync = bcrypt_compareSync]
       empty absent hash
  show ?thesis by simp
qed

end
